theory Spec2Isabelle
  imports Main "HOL-Library.Word"
begin

unbundle bit_operations_syntax

section \<open>float32 values\<close>

text \<open>
  The components of a \<open>Vector3\<close> are Go \<open>float32\<close> values: IEEE-754 binary32.
  A value is modelled by its bit pattern (what \<open>math.Float32bits\<close> returns): bit 31 is
  the sign, bits 30..23 the biased exponent, bits 22..0 the fraction. Every finite
  binary32 value is an integer multiple of \<open>2^-149\<close>; \<open>f32_mag\<close> is that multiple for
  the magnitude. Arithmetic computes the exact result on these integers and rounds
  once, to nearest, ties to even, as Go's \<open>+\<close>, \<open>-\<close> and \<open>*\<close> on \<open>float32\<close> do for a
  single operation. Which NaN an invalid operation returns depends on the hardware;
  the model returns the quiet NaN \<open>0x7FC00000\<close> and nothing below depends on the
  payload.
\<close>

type_synonym float32 = "32 word"

definition f32_sign :: "float32 \<Rightarrow> bool" where
  "f32_sign w = bit w 31"

definition f32_exp :: "float32 \<Rightarrow> nat" where
  "f32_exp w = unat (drop_bit 23 w AND 0xFF)"

definition f32_frac :: "float32 \<Rightarrow> nat" where
  "f32_frac w = unat (w AND 0x7FFFFF)"

definition f32_is_nan :: "float32 \<Rightarrow> bool" where
  "f32_is_nan w = (f32_exp w = 255 \<and> f32_frac w \<noteq> 0)"

definition f32_is_inf :: "float32 \<Rightarrow> bool" where
  "f32_is_inf w = (f32_exp w = 255 \<and> f32_frac w = 0)"

definition f32_finite :: "float32 \<Rightarrow> bool" where
  "f32_finite w = (f32_exp w \<noteq> 255)"

definition f32_mag :: "float32 \<Rightarrow> nat" where
  "f32_mag w = (if f32_exp w = 0 then f32_frac w
                else (2 ^ 23 + f32_frac w) * 2 ^ (f32_exp w - 1))"

definition f32_val :: "float32 \<Rightarrow> int" where
  "f32_val w = (if f32_sign w then - int (f32_mag w) else int (f32_mag w))"

definition f32_nan :: float32 where
  "f32_nan = 0x7FC00000"

definition f32_inf :: "bool \<Rightarrow> float32" where
  "f32_inf s = (if s then 0xFF800000 else 0x7F800000)"

definition f32_neg :: "float32 \<Rightarrow> float32" where
  "f32_neg w = w XOR 0x80000000"

text \<open>The number of binary digits of a natural number.\<close>

fun bitlen :: "nat \<Rightarrow> nat" where
  "bitlen n = (if n = 0 then 0 else Suc (bitlen (n div 2)))"

declare bitlen.simps [simp del]

text \<open>
  \<open>f32_round s u n\<close> is the binary32 value nearest to \<open>\<plusminus> n * 2^-(149+u)\<close>, ties to even,
  with sign \<open>s\<close>: \<open>k\<close> low digits are dropped so that at most 24 remain and the
  quantum is at least \<open>2^-149\<close>; the kept digits and the exponent are packed as one
  number, so that a carry out of the fraction moves into the exponent; a result beyond
  the largest finite value is an infinity.
\<close>

definition f32_round :: "bool \<Rightarrow> nat \<Rightarrow> nat \<Rightarrow> float32" where
  "f32_round s u n =
     (let k = max (bitlen n - 24) u;
          q = n div 2 ^ k;
          r = n mod 2 ^ k;
          m = (if 2 * r > 2 ^ k \<or> (2 * r = 2 ^ k \<and> odd q) then q + 1 else q);
          packed = (k - u) * 2 ^ 23 + m
      in if packed \<ge> 255 * 2 ^ 23 then f32_inf s
         else (if s then 0x80000000 else 0) OR of_nat packed)"

definition f32_add :: "float32 \<Rightarrow> float32 \<Rightarrow> float32" where
  "f32_add a b =
     (if f32_is_nan a \<or> f32_is_nan b then f32_nan
      else if f32_is_inf a then (if f32_is_inf b \<and> f32_sign a \<noteq> f32_sign b then f32_nan else a)
      else if f32_is_inf b then b
      else (let v = f32_val a + f32_val b
            in if v = 0 then (if f32_sign a \<and> f32_sign b then 0x80000000 else 0)
               else f32_round (v < 0) 0 (nat \<bar>v\<bar>)))"

definition f32_sub :: "float32 \<Rightarrow> float32 \<Rightarrow> float32" where
  "f32_sub a b = f32_add a (f32_neg b)"

definition f32_mul :: "float32 \<Rightarrow> float32 \<Rightarrow> float32" where
  "f32_mul a b =
     (if f32_is_nan a \<or> f32_is_nan b then f32_nan
      else if f32_is_inf a \<or> f32_is_inf b then
        (if f32_mag a = 0 \<or> f32_mag b = 0 then f32_nan
         else f32_inf (f32_sign a \<noteq> f32_sign b))
      else f32_round (f32_sign a \<noteq> f32_sign b) 149 (f32_mag a * f32_mag b))"

text \<open>The integer square root, one binary digit at a time from the top.\<close>

fun isqrt_digits :: "nat \<Rightarrow> nat \<Rightarrow> nat \<Rightarrow> nat" where
  "isqrt_digits 0 r n = r"
| "isqrt_digits (Suc k) r n =
     (let c = r + 2 ^ k in if c * c \<le> n then isqrt_digits k c n else isqrt_digits k r n)"

definition isqrt :: "nat \<Rightarrow> nat" where
  "isqrt n = isqrt_digits (bitlen n) 0 n"

text \<open>
  The correctly rounded square root: \<open>sqrt (m * 2^-149) = 2 * sqrt (m * 2^147) * 2^-149\<close>;
  the integer root has more than 70 digits, and one more digit records whether it is
  exact, which is all that rounding to 24 digits needs.
\<close>

definition f32_sqrt :: "float32 \<Rightarrow> float32" where
  "f32_sqrt a =
     (if f32_is_nan a then f32_nan
      else if f32_mag a = 0 then a
      else if f32_sign a then f32_nan
      else if f32_is_inf a then a
      else (let n = f32_mag a * 2 ^ 147; s = isqrt n
            in f32_round False 0 (2 * s + (if s * s = n then 0 else 1))))"

text \<open>Go's \<open>==\<close> on \<open>float32\<close>: a NaN equals nothing, the two zeros are equal.\<close>

definition f32_eq :: "float32 \<Rightarrow> float32 \<Rightarrow> bool" where
  "f32_eq a b =
     (\<not> f32_is_nan a \<and> \<not> f32_is_nan b \<and> (a = b \<or> (f32_mag a = 0 \<and> f32_mag b = 0)))"

section \<open>Vectors, lines and the store\<close>

text \<open>
  \<open>Vector3\<close> is declared elsewhere in package \<open>math32\<close>; the source uses it as a
  struct of three \<open>float32\<close> components that is assigned by value (\<open>l.start = *start\<close>).
  \<open>Line3\<close> is the struct of \<open>line3.go\<close>; its field \<open>end\<close> is written \<open>end'\<close>.
\<close>

record Vector3 =
  X :: float32
  Y :: float32
  Z :: float32

record Line3 =
  start :: Vector3
  end' :: Vector3

text \<open>
  A \<open>*Vector3\<close> points either to a vector allocated on its own or into a \<open>Line3\<close>
  (\<open>&l.start\<close>, \<open>&l.end\<close>); a \<open>*Line3\<close> is the index of a line. \<open>None\<close> is \<open>nil\<close>.
  The store is the list of the vectors and the list of the lines allocated so far;
  allocation appends, so the new address is the length of the list.
\<close>

datatype vaddr = Cell nat | StartOf nat | EndOf nat

type_synonym vptr = "vaddr option"
type_synonym lptr = "nat option"

record heap =
  vecs :: "Vector3 list"
  lines :: "Line3 list"

text \<open>
  \<open>NilDereference\<close> is Go's run-time panic on a nil pointer. Go has no dangling
  pointers; the model reports \<open>InvalidAddress\<close> for an address outside the store
  rather than leave the access unspecified.
\<close>

datatype fault = NilDereference | InvalidAddress

definition bind :: "fault + 'a \<Rightarrow> ('a \<Rightarrow> fault + 'b) \<Rightarrow> fault + 'b" where
  "bind m f = (case m of Inl e \<Rightarrow> Inl e | Inr x \<Rightarrow> f x)"

fun valid_vaddr :: "heap \<Rightarrow> vaddr \<Rightarrow> bool" where
  "valid_vaddr h (Cell a) = (a < length (vecs h))"
| "valid_vaddr h (StartOf a) = (a < length (lines h))"
| "valid_vaddr h (EndOf a) = (a < length (lines h))"

fun valid_vptr :: "heap \<Rightarrow> vptr \<Rightarrow> bool" where
  "valid_vptr h None = True"
| "valid_vptr h (Some p) = valid_vaddr h p"

definition valid_line :: "heap \<Rightarrow> nat \<Rightarrow> bool" where
  "valid_line h a = (a < length (lines h))"

fun read_vaddr :: "heap \<Rightarrow> vaddr \<Rightarrow> Vector3" where
  "read_vaddr h (Cell a) = vecs h ! a"
| "read_vaddr h (StartOf a) = start (lines h ! a)"
| "read_vaddr h (EndOf a) = end' (lines h ! a)"

fun write_vaddr :: "heap \<Rightarrow> vaddr \<Rightarrow> Vector3 \<Rightarrow> heap" where
  "write_vaddr h (Cell a) v = h\<lparr>vecs := (vecs h)[a := v]\<rparr>"
| "write_vaddr h (StartOf a) v = h\<lparr>lines := (lines h)[a := (lines h ! a)\<lparr>start := v\<rparr>]\<rparr>"
| "write_vaddr h (EndOf a) v = h\<lparr>lines := (lines h)[a := (lines h ! a)\<lparr>end' := v\<rparr>]\<rparr>"

text \<open>\<open>*p\<close> read and \<open>*p = v\<close> for a \<open>*Vector3\<close>.\<close>

definition load_vec :: "heap \<Rightarrow> vptr \<Rightarrow> fault + Vector3" where
  "load_vec h p =
     (case p of None \<Rightarrow> Inl NilDereference
      | Some a \<Rightarrow> if valid_vaddr h a then Inr (read_vaddr h a) else Inl InvalidAddress)"

definition store_vec :: "heap \<Rightarrow> vptr \<Rightarrow> Vector3 \<Rightarrow> fault + heap" where
  "store_vec h p v =
     (case p of None \<Rightarrow> Inl NilDereference
      | Some a \<Rightarrow> if valid_vaddr h a then Inr (write_vaddr h a v) else Inl InvalidAddress)"

text \<open>\<open>*l\<close> read and \<open>*l = v\<close> for a \<open>*Line3\<close>.\<close>

definition load_line :: "heap \<Rightarrow> lptr \<Rightarrow> fault + Line3" where
  "load_line h l =
     (case l of None \<Rightarrow> Inl NilDereference
      | Some a \<Rightarrow> if valid_line h a then Inr (lines h ! a) else Inl InvalidAddress)"

definition store_line :: "heap \<Rightarrow> lptr \<Rightarrow> Line3 \<Rightarrow> fault + heap" where
  "store_line h l v =
     (case l of None \<Rightarrow> Inl NilDereference
      | Some a \<Rightarrow> if valid_line h a then Inr (h\<lparr>lines := (lines h)[a := v]\<rparr>)
                  else Inl InvalidAddress)"

text \<open>
  \<open>&l.start\<close> and \<open>&l.end\<close>: taking the address of a field through a nil pointer
  panics; otherwise no memory is accessed.
\<close>

definition addr_start :: "lptr \<Rightarrow> fault + vptr" where
  "addr_start l = (case l of None \<Rightarrow> Inl NilDereference | Some a \<Rightarrow> Inr (Some (StartOf a)))"

definition addr_end :: "lptr \<Rightarrow> fault + vptr" where
  "addr_end l = (case l of None \<Rightarrow> Inl NilDereference | Some a \<Rightarrow> Inr (Some (EndOf a)))"

definition zero_Vector3 :: Vector3 where
  "zero_Vector3 = \<lparr>X = 0, Y = 0, Z = 0\<rparr>"

definition zero_Line3 :: Line3 where
  "zero_Line3 = \<lparr>start = zero_Vector3, end' = zero_Vector3\<rparr>"

text \<open>\<open>new(Line3)\<close>: a fresh line with both endpoints zero.\<close>

definition new_Line3 :: "heap \<Rightarrow> lptr \<times> heap" where
  "new_Line3 h = (Some (length (lines h)), h\<lparr>lines := lines h @ [zero_Line3]\<rparr>)"

section \<open>Line3\<close>

text \<open>
  \<^verbatim>\<open>func (l *Line3) Set(start, end *Vector3) *Line3 {
      if start != nil { l.start = *start }
      if end != nil { l.end = *end }
      return l
  }\<close>
\<close>

definition Set :: "lptr \<Rightarrow> vptr \<Rightarrow> vptr \<Rightarrow> heap \<Rightarrow> fault + (lptr \<times> heap)" where
  "Set l start_arg end_arg h =
     bind (if start_arg \<noteq> None
           then bind (load_vec h start_arg) (\<lambda>v. bind (addr_start l) (\<lambda>p. store_vec h p v))
           else Inr h)
       (\<lambda>h1. bind (if end_arg \<noteq> None
                    then bind (load_vec h1 end_arg) (\<lambda>v. bind (addr_end l) (\<lambda>p. store_vec h1 p v))
                    else Inr h1)
       (\<lambda>h2. Inr (l, h2)))"

text \<open>
  \<^verbatim>\<open>func NewLine3(start, end *Vector3) *Line3 {
      l := new(Line3)
      l.Set(start, end)
      return l
  }\<close>
\<close>

definition NewLine3 :: "vptr \<Rightarrow> vptr \<Rightarrow> heap \<Rightarrow> fault + (lptr \<times> heap)" where
  "NewLine3 start_arg end_arg h =
     (case new_Line3 h of (l, h1) \<Rightarrow>
        bind (Set l start_arg end_arg h1) (\<lambda>(_, h2). Inr (l, h2)))"

text \<open>\<open>Start\<close> and \<open>End\<close> return \<open>&l.start\<close> and \<open>&l.end\<close>.\<close>

definition Start :: "lptr \<Rightarrow> fault + vptr" where
  "Start l = addr_start l"

definition End :: "lptr \<Rightarrow> fault + vptr" where
  "End l = addr_end l"

text \<open>
  \<^verbatim>\<open>func (l *Line3) Copy(other *Line3) *Line3 {
      *l = *other
      return l
  }\<close>
\<close>

definition Copy :: "lptr \<Rightarrow> lptr \<Rightarrow> heap \<Rightarrow> fault + (lptr \<times> heap)" where
  "Copy l other h =
     bind (load_line h other) (\<lambda>v. bind (store_line h l v) (\<lambda>h1. Inr (l, h1)))"

text \<open>
  \<^verbatim>\<open>func (l *Line3) Clone() *Line3 {
      return NewLine3(&l.start, &l.end)
  }\<close>
\<close>

definition Clone :: "lptr \<Rightarrow> heap \<Rightarrow> fault + (lptr \<times> heap)" where
  "Clone l h = bind (addr_start l) (\<lambda>a. bind (addr_end l) (\<lambda>b. NewLine3 a b h))"

section \<open>The Vector3 methods that Line3 calls\<close>

text \<open>
  Modelled from the spec: \<open>NewVector3\<close>, which is not in \<open>line3.go\<close>. The spec has
  "a freshly allocated vector holds the result": a new vector with the given
  components, at an address not used before.
\<close>

definition NewVector3 :: "float32 \<Rightarrow> float32 \<Rightarrow> float32 \<Rightarrow> heap \<Rightarrow> vptr \<times> heap" where
  "NewVector3 x y z h =
     (Some (Cell (length (vecs h))), h\<lparr>vecs := vecs h @ [\<lparr>X = x, Y = y, Z = z\<rparr>]\<rparr>)"

definition vec_add :: "Vector3 \<Rightarrow> Vector3 \<Rightarrow> Vector3" where
  "vec_add a b = \<lparr>X = f32_add (X a) (X b), Y = f32_add (Y a) (Y b), Z = f32_add (Z a) (Z b)\<rparr>"

definition vec_sub :: "Vector3 \<Rightarrow> Vector3 \<Rightarrow> Vector3" where
  "vec_sub a b = \<lparr>X = f32_sub (X a) (X b), Y = f32_sub (Y a) (Y b), Z = f32_sub (Z a) (Z b)\<rparr>"

definition vec_scale :: "Vector3 \<Rightarrow> float32 \<Rightarrow> Vector3" where
  "vec_scale a s = \<lparr>X = f32_mul (X a) s, Y = f32_mul (Y a) s, Z = f32_mul (Z a) s\<rparr>"

text \<open>
  Modelled from the spec: \<open>Vector3.AddVectors\<close> and \<open>Vector3.SubVectors\<close>, which are
  not in \<open>line3.go\<close>. The spec has "componentwise add/subtract producing a new or target
  vector": the receiver is the target, it receives the componentwise sum (difference)
  of the two arguments and is returned, as the chained call in \<open>Center\<close> needs.
\<close>

definition Vector3_AddVectors :: "vptr \<Rightarrow> vptr \<Rightarrow> vptr \<Rightarrow> heap \<Rightarrow> fault + (vptr \<times> heap)" where
  "Vector3_AddVectors v a b h =
     bind (load_vec h a) (\<lambda>va. bind (load_vec h b) (\<lambda>vb.
     bind (store_vec h v (vec_add va vb)) (\<lambda>h1. Inr (v, h1))))"

definition Vector3_SubVectors :: "vptr \<Rightarrow> vptr \<Rightarrow> vptr \<Rightarrow> heap \<Rightarrow> fault + (vptr \<times> heap)" where
  "Vector3_SubVectors v a b h =
     bind (load_vec h a) (\<lambda>va. bind (load_vec h b) (\<lambda>vb.
     bind (store_vec h v (vec_sub va vb)) (\<lambda>h1. Inr (v, h1))))"

text \<open>
  Modelled from the spec: \<open>Vector3.MultiplyScalar\<close>, which is not in \<open>line3.go\<close>. The
  spec has "scalar multiplication"; \<open>Center\<close> returns its result as the target, so it
  multiplies the receiver in place and returns it.
\<close>

definition Vector3_MultiplyScalar :: "vptr \<Rightarrow> float32 \<Rightarrow> heap \<Rightarrow> fault + (vptr \<times> heap)" where
  "Vector3_MultiplyScalar v s h =
     bind (load_vec h v) (\<lambda>x. bind (store_vec h v (vec_scale x s)) (\<lambda>h1. Inr (v, h1)))"

text \<open>
  Modelled from the spec: \<open>Vector3.DistanceToSquared\<close> and \<open>Vector3.DistanceTo\<close>, which
  are not in \<open>line3.go\<close>. The spec has "squared/unsquared Euclidean distance between two
  vectors" and "Euclidean distance (square root of DistanceSquared())": the sum of the
  squares of the three component differences, each operation rounded on its own, and the
  square root of that sum.
\<close>

definition vec_dist_sq :: "Vector3 \<Rightarrow> Vector3 \<Rightarrow> float32" where
  "vec_dist_sq a b =
     (let dx = f32_sub (X a) (X b); dy = f32_sub (Y a) (Y b); dz = f32_sub (Z a) (Z b)
      in f32_add (f32_add (f32_mul dx dx) (f32_mul dy dy)) (f32_mul dz dz))"

definition Vector3_DistanceToSquared :: "vptr \<Rightarrow> vptr \<Rightarrow> heap \<Rightarrow> fault + float32" where
  "Vector3_DistanceToSquared v other h =
     bind (load_vec h v) (\<lambda>a. bind (load_vec h other) (\<lambda>b. Inr (vec_dist_sq a b)))"

definition Vector3_DistanceTo :: "vptr \<Rightarrow> vptr \<Rightarrow> heap \<Rightarrow> fault + float32" where
  "Vector3_DistanceTo v other h =
     bind (Vector3_DistanceToSquared v other h) (\<lambda>d. Inr (f32_sqrt d))"

text \<open>
  Modelled from the spec: \<open>Vector3.Equals\<close>, which is not in \<open>line3.go\<close>. The spec has
  "the vector type's equality (exact, not epsilon-based)" and "source equality is exact
  floating-point comparison with no tolerance": the three components compared with
  \<open>==\<close>.
\<close>

definition vec_eq :: "Vector3 \<Rightarrow> Vector3 \<Rightarrow> bool" where
  "vec_eq a b = (f32_eq (X a) (X b) \<and> f32_eq (Y a) (Y b) \<and> f32_eq (Z a) (Z b))"

definition Vector3_Equals :: "vptr \<Rightarrow> vptr \<Rightarrow> heap \<Rightarrow> fault + bool" where
  "Vector3_Equals v other h =
     bind (load_vec h v) (\<lambda>a. bind (load_vec h other) (\<lambda>b. Inr (vec_eq a b)))"


section \<open>Line3: queries, transformation and traversal\<close>

text \<open>The constant \<open>0.5\<close> as a \<open>float32\<close>.\<close>

definition f32_half :: float32 where
  "f32_half = 0x3F000000"

text \<open>
  \<^verbatim>\<open>func (l *Line3) Center(optionalTarget *Vector3) *Vector3 {
      var result *Vector3
      if optionalTarget == nil { result = NewVector3(0, 0, 0) } else { result = optionalTarget }
      return result.AddVectors(&l.start, &l.end).MultiplyScalar(0.5)
  }\<close>
\<close>

definition Center :: "lptr \<Rightarrow> vptr \<Rightarrow> heap \<Rightarrow> fault + (vptr \<times> heap)" where
  "Center l optionalTarget h =
     (case (if optionalTarget = None then NewVector3 0 0 0 h else (optionalTarget, h)) of
        (result, h1) \<Rightarrow>
          bind (addr_start l) (\<lambda>a. bind (addr_end l) (\<lambda>b.
          bind (Vector3_AddVectors result a b h1) (\<lambda>(r, h2).
          Vector3_MultiplyScalar r f32_half h2))))"

text \<open>
  \<^verbatim>\<open>func (l *Line3) Delta(optionalTarget *Vector3) *Vector3 {
      var result *Vector3
      if optionalTarget == nil { result = NewVector3(0, 0, 0) } else { result = optionalTarget }
      return result.SubVectors(&l.end, &l.start)
  }\<close>
\<close>

definition Delta :: "lptr \<Rightarrow> vptr \<Rightarrow> heap \<Rightarrow> fault + (vptr \<times> heap)" where
  "Delta l optionalTarget h =
     (case (if optionalTarget = None then NewVector3 0 0 0 h else (optionalTarget, h)) of
        (result, h1) \<Rightarrow>
          bind (addr_end l) (\<lambda>b. bind (addr_start l) (\<lambda>a.
          Vector3_SubVectors result b a h1)))"

text \<open>
  \<^verbatim>\<open>func (l *Line3) DistanceSq() float32 { return l.start.DistanceToSquared(&l.end) }
  func (l *Line3) Distance() float32 { return l.start.DistanceTo(&l.end) }\<close>
\<close>

definition DistanceSq :: "lptr \<Rightarrow> heap \<Rightarrow> fault + float32" where
  "DistanceSq l h =
     bind (addr_start l) (\<lambda>a. bind (addr_end l) (\<lambda>b. Vector3_DistanceToSquared a b h))"

definition Distance :: "lptr \<Rightarrow> heap \<Rightarrow> fault + float32" where
  "Distance l h =
     bind (addr_start l) (\<lambda>a. bind (addr_end l) (\<lambda>b. Vector3_DistanceTo a b h))"


text \<open>
  \<^verbatim>\<open>func (l *Line3) Equals(other *Line3) bool {
      return other.start.Equals(&l.start) && other.end.Equals(&l.end)
  }\<close>
  The second comparison is evaluated only when the first is true.
\<close>

definition Equals :: "lptr \<Rightarrow> lptr \<Rightarrow> heap \<Rightarrow> fault + bool" where
  "Equals l other h =
     bind (addr_start other) (\<lambda>os. bind (addr_start l) (\<lambda>ls.
     bind (Vector3_Equals os ls h) (\<lambda>b1.
       if b1 then bind (addr_end other) (\<lambda>oe. bind (addr_end l) (\<lambda>le.
                  Vector3_Equals oe le h))
       else Inr False)))"

text \<open>
  A callback is a Go function value: \<open>None\<close> is the nil function, whose call panics.
  A callback may read and write the whole store and has state of its own (what its
  closure captured), of type \<open>'c\<close>; it may panic.
\<close>

definition call :: "('a \<Rightarrow> 'w \<Rightarrow> fault + 'r) option \<Rightarrow> 'a \<Rightarrow> 'w \<Rightarrow> fault + 'r" where
  "call cb x w = (case cb of None \<Rightarrow> Inl NilDereference | Some f \<Rightarrow> f x w)"

text \<open>
  \<^verbatim>\<open>func (t *Line3) OperateOnVertices(cb func(vertex *Vector3) bool) {
      if cb(&t.start) == true { return }
      if cb(&t.end) == true { return }
  }\<close>
\<close>

definition OperateOnVertices ::
  "lptr \<Rightarrow> (vptr \<Rightarrow> heap \<times> 'c \<Rightarrow> fault + (bool \<times> heap \<times> 'c)) option \<Rightarrow> heap \<times> 'c
     \<Rightarrow> fault + (heap \<times> 'c)" where
  "OperateOnVertices t cb w =
     bind (addr_start t) (\<lambda>a. bind (call cb a w) (\<lambda>(stop1, w1).
       if stop1 = True then Inr w1
       else bind (addr_end t) (\<lambda>b. bind (call cb b w1) (\<lambda>(stop2, w2).
         if stop2 = True then Inr w2 else Inr w2))))"

text \<open>
  \<^verbatim>\<open>func (t *Line3) ReadVertices(cb func(vertex Vector3) bool) {
      if cb(t.start) == true { return }
      if cb(t.end) == true { return }
  }\<close>
  \<open>t.start\<close> and \<open>t.end\<close> are read from the store when the call is made.
\<close>

definition ReadVertices ::
  "lptr \<Rightarrow> (Vector3 \<Rightarrow> heap \<times> 'c \<Rightarrow> fault + (bool \<times> heap \<times> 'c)) option \<Rightarrow> heap \<times> 'c
     \<Rightarrow> fault + (heap \<times> 'c)" where
  "ReadVertices t cb w =
     bind (bind (addr_start t) (load_vec (fst w))) (\<lambda>a. bind (call cb a w) (\<lambda>(stop1, w1).
       if stop1 = True then Inr w1
       else bind (bind (addr_end t) (load_vec (fst w1))) (\<lambda>b. bind (call cb b w1) (\<lambda>(stop2, w2).
         if stop2 = True then Inr w2 else Inr w2))))"

text \<open>
  \<open>traced cb\<close> is \<open>cb\<close> with each call recorded: it appends its argument to a log kept
  beside the callback's own state, and otherwise does what \<open>cb\<close> does.
\<close>

definition traced ::
  "('a \<Rightarrow> heap \<times> 'c \<Rightarrow> fault + (bool \<times> heap \<times> 'c))
     \<Rightarrow> 'a \<Rightarrow> heap \<times> ('c \<times> 'a list) \<Rightarrow> fault + (bool \<times> heap \<times> ('c \<times> 'a list))" where
  "traced cb x w =
     (case w of (h, c, log) \<Rightarrow>
        bind (cb x (h, c)) (\<lambda>(stop, h1, c1). Inr (stop, h1, c1, log @ [x])))"

section \<open>Predicates, callbacks and stores for the examples\<close>

definition f32_one :: float32 where
  "f32_one = 0x3F800000"

definition f32_two :: float32 where
  "f32_two = 0x40000000"

definition vec3 :: "float32 \<Rightarrow> float32 \<Rightarrow> float32 \<Rightarrow> Vector3" where
  "vec3 x y z = \<lparr>X = x, Y = y, Z = z\<rparr>"

definition line3 :: "Vector3 \<Rightarrow> Vector3 \<Rightarrow> Line3" where
  "line3 a b = \<lparr>start = a, end' = b\<rparr>"

text \<open>
  A store with one vector \<open>(1,0,0)\<close> at \<open>Cell 0\<close> and one line from \<open>(0,0,0)\<close> to
  \<open>(2,0,0)\<close> at address 0.
\<close>

definition store0 :: heap where
  "store0 = \<lparr>vecs = [vec3 f32_one 0 0], lines = [line3 (vec3 0 0 0) (vec3 f32_two 0 0)]\<rparr>"

text \<open>
  A store with three lines: two from \<open>(0,0,0)\<close> to \<open>(2,0,0)\<close> and one from \<open>(0,0,0)\<close>
  to \<open>(2,0,1)\<close>.
\<close>

definition store1 :: heap where
  "store1 = \<lparr>vecs = [],
     lines = [line3 (vec3 0 0 0) (vec3 f32_two 0 0), line3 (vec3 0 0 0) (vec3 f32_two 0 0),
              line3 (vec3 0 0 0) (vec3 f32_two 0 f32_one)]\<rparr>"

text \<open>A store with one line whose start has a NaN component.\<close>

definition store_nan :: heap where
  "store_nan = \<lparr>vecs = [], lines = [line3 (vec3 f32_nan 0 0) (vec3 0 0 0)]\<rparr>"

text \<open>No component of the vector is a NaN.\<close>

definition vec_no_nan :: "Vector3 \<Rightarrow> bool" where
  "vec_no_nan v = (\<not> f32_is_nan (X v) \<and> \<not> f32_is_nan (Y v) \<and> \<not> f32_is_nan (Z v))"


definition f32_three :: float32 where
  "f32_three = 0x40400000"

definition f32_four :: float32 where
  "f32_four = 0x40800000"

text \<open>
  A callback that works on its argument and on its own state only: it captured no
  pointer into the store, so the store passes through it unchanged.
\<close>

definition value_callback ::
  "('a \<Rightarrow> 'c \<Rightarrow> bool \<times> 'c) \<Rightarrow> 'a \<Rightarrow> heap \<times> 'c \<Rightarrow> fault + (bool \<times> heap \<times> 'c)" where
  "value_callback g x w =
     (case w of (h, c) \<Rightarrow> (case g x c of (stop, c1) \<Rightarrow> Inr (stop, h, c1)))"

text \<open>
  Callbacks to run the traversals with: one that zeroes the vertex it is given and
  continues, one that stops at once, and one that counts its calls and continues.
\<close>

definition clear_vertex :: "vptr \<Rightarrow> heap \<times> unit \<Rightarrow> fault + (bool \<times> heap \<times> unit)" where
  "clear_vertex p w = bind (store_vec (fst w) p zero_Vector3) (\<lambda>h1. Inr (False, h1, snd w))"

definition stop_at_first :: "'a \<Rightarrow> heap \<times> 'c \<Rightarrow> fault + (bool \<times> heap \<times> 'c)" where
  "stop_at_first x w = Inr (True, w)"

definition count_call :: "Vector3 \<Rightarrow> nat \<Rightarrow> bool \<times> nat" where
  "count_call v n = (False, Suc n)"

text \<open>
  Two stores with one degenerate line each: from \<open>(2,0,0)\<close> to \<open>(2,0,0)\<close>, and from
  \<open>(+Inf,0,0)\<close> to \<open>(+Inf,0,0)\<close>.
\<close>

definition store_deg :: heap where
  "store_deg = \<lparr>vecs = [], lines = [line3 (vec3 f32_two 0 0) (vec3 f32_two 0 0)]\<rparr>"

definition store_inf :: heap where
  "store_inf = \<lparr>vecs = [],
     lines = [line3 (vec3 (f32_inf False) 0 0) (vec3 (f32_inf False) 0 0)]\<rparr>"

text \<open>Every component of the vector is finite: neither an infinity nor a NaN.\<close>

definition vec_finite :: "Vector3 \<Rightarrow> bool" where
  "vec_finite v = (f32_finite (X v) \<and> f32_finite (Y v) \<and> f32_finite (Z v))"

section \<open>Basic facts about the store\<close>

lemma bind_Inr [simp]: "bind (Inr x) f = f x"
  by (simp add: bind_def)

lemma bind_Inl [simp]: "bind (Inl e) f = Inl e"
  by (simp add: bind_def)

lemma load_vec_valid [simp]: "valid_vaddr h a \<Longrightarrow> load_vec h (Some a) = Inr (read_vaddr h a)"
  by (simp add: load_vec_def)

lemma store_vec_valid [simp]:
  "valid_vaddr h a \<Longrightarrow> store_vec h (Some a) v = Inr (write_vaddr h a v)"
  by (simp add: store_vec_def)

lemma load_vec_nil [simp]: "load_vec h None = Inl NilDereference"
  by (simp add: load_vec_def)

lemma store_vec_nil [simp]: "store_vec h None v = Inl NilDereference"
  by (simp add: store_vec_def)

lemma addr_start_Some [simp]: "addr_start (Some l) = Inr (Some (StartOf l))"
  by (simp add: addr_start_def)

lemma addr_end_Some [simp]: "addr_end (Some l) = Inr (Some (EndOf l))"
  by (simp add: addr_end_def)

lemma addr_start_nil [simp]: "addr_start None = Inl NilDereference"
  by (simp add: addr_start_def)

lemma addr_end_nil [simp]: "addr_end None = Inl NilDereference"
  by (simp add: addr_end_def)

lemma valid_write [simp]: "valid_vaddr (write_vaddr h a v) b = valid_vaddr h b"
  by (cases a; cases b) simp_all

lemma length_lines_write [simp]: "length (lines (write_vaddr h a v)) = length (lines h)"
  by (cases a) simp_all

lemma length_vecs_write [simp]: "length (vecs (write_vaddr h a v)) = length (vecs h)"
  by (cases a) simp_all

lemma read_write_same [simp]: "valid_vaddr h a \<Longrightarrow> read_vaddr (write_vaddr h a v) a = v"
  by (cases a) simp_all

lemma nth_upd: "xs[i := x] ! j = (if i = j \<and> i < length xs then x else xs ! j)"
  by (cases "i < length xs") (auto simp: nth_list_update list_update_beyond)

lemma read_write_other: "a \<noteq> b \<Longrightarrow> read_vaddr (write_vaddr h a v) b = read_vaddr h b"
  by (cases a; cases b) (auto simp: nth_upd)

lemmas example_defs =
  store0_def store1_def store_nan_def vec3_def line3_def f32_one_def f32_two_def f32_three_def f32_half_def valid_line_def
  zero_Vector3_def zero_Line3_def

lemmas f32_eval_defs =
  f32_add_def f32_sub_def f32_mul_def f32_round_def f32_val_def f32_mag_def f32_exp_def
  f32_frac_def f32_sign_def f32_is_nan_def f32_is_inf_def f32_neg_def f32_nan_def f32_inf_def
  f32_eq_def Let_def bitlen.simps

lemma f32_examples:
  "f32_add 0 0 = 0" "f32_add 0 f32_two = f32_two" "f32_add 0 f32_one = f32_one"
  "f32_add f32_two 0 = f32_two" "f32_add f32_two f32_one = f32_three"
  "f32_mul 0 f32_half = 0" "f32_mul f32_two f32_half = f32_one"
  "f32_sub 0 0 = 0" "f32_sub f32_two 0 = f32_two"
  "f32_sub 0 f32_two = f32_neg f32_two" "f32_mul (f32_neg f32_two) (f32_neg f32_two) = f32_four"
  "f32_mul 0 0 = 0" "f32_add f32_four 0 = f32_four"
  by (simp_all add: f32_eval_defs f32_one_def f32_two_def f32_three_def f32_four_def
      f32_half_def)

text \<open>
  Rounding to nearest, ties to even: \<open>0.1 + 0.2\<close> and \<open>3 * 0.1\<close> are both the
  \<open>float32\<close> \<open>0.3\<close>; \<open>2^24 + 1\<close> is a tie and goes to the even \<open>2^24\<close>, while
  \<open>(2^24 + 2) + 1\<close> goes up to \<open>2^24 + 4\<close>; twice the largest finite value is \<open>+Inf\<close>;
  half the smallest subnormal is a tie and goes to \<open>0\<close>, and \<open>1.5\<close> times the smallest
  subnormal goes to twice it.
\<close>

lemma f32_rounding_examples:
  "f32_add 0x3DCCCCCD 0x3E4CCCCD = 0x3E99999A" "f32_mul 0x40400000 0x3DCCCCCD = 0x3E99999A"
  "f32_add 0x4B800000 0x3F800000 = 0x4B800000" "f32_add 0x4B800001 0x3F800000 = 0x4B800002"
  "f32_mul 0x7F7FFFFF 0x40000000 = 0x7F800000"
  "f32_mul 0x00000001 0x3F000000 = 0" "f32_mul 0x00000003 0x3F000000 = 2"
  by (simp_all add: f32_eval_defs)

section \<open>Set\<close>

lemma Set_result:
  assumes "valid_line h l" and "valid_vptr h s" and "valid_vptr h e"
  shows "Set (Some l) s e h =
     Inr (Some l, h\<lparr>lines := (lines h)[l :=
        \<lparr>start = (case s of None \<Rightarrow> start (lines h ! l) | Some p \<Rightarrow> read_vaddr h p),
         end' = (case e of None \<Rightarrow> end' (lines h ! l)
                 | Some q \<Rightarrow> (case s of None \<Rightarrow> read_vaddr h q
                     | Some p \<Rightarrow> if q = StartOf l then read_vaddr h p else read_vaddr h q))\<rparr>]\<rparr>)"
proof -
  have l: "l < length (lines h)" using assms(1) by (simp add: valid_line_def)
  show ?thesis
  proof (cases s)
    case None
    show ?thesis
    proof (cases e)
      case eN: None
      from l None eN show ?thesis
        by (auto simp: Set_def list_eq_iff_nth_eq nth_upd intro!: heap.equality)
    next
      case (Some q)
      with assms l None show ?thesis
        by (cases q) (auto simp: Set_def list_eq_iff_nth_eq nth_upd intro!: heap.equality)
    qed
  next
    case sS: (Some p)
    show ?thesis
    proof (cases e)
      case None
      with assms l sS show ?thesis
        by (cases p) (auto simp: Set_def list_eq_iff_nth_eq nth_upd intro!: heap.equality)
    next
      case (Some q)
      with assms l sS show ?thesis
        by (cases p; cases q)
           (auto simp: Set_def list_eq_iff_nth_eq nth_upd intro!: heap.equality)
    qed
  qed
qed

text \<open>
  C1, as amended. For a line \<open>l\<close> with endpoints \<open>(A, B)\<close> and arguments \<open>s\<close>, \<open>e\<close>, each
  of which may be nil, \<open>Set\<close> returns \<open>l\<close> itself and changes nothing but \<open>l\<close>. Afterwards
  the start endpoint is the value \<open>*s\<close> had at the call if \<open>s\<close> is non-nil and \<open>A\<close>
  otherwise. The end endpoint is \<open>B\<close> if \<open>e\<close> is nil; if \<open>e\<close> is non-nil it is the value
  \<open>*e\<close> has once the start endpoint has been assigned: the value \<open>*e\<close> had at the call,
  except that when \<open>e\<close> is \<open>&l.start\<close> and \<open>s\<close> is non-nil it is the new start, the value
  of \<open>*s\<close> at the call. \<open>Set(nil, nil)\<close> leaves the line unchanged.
\<close>

theorem Set_endpoints:
  assumes "valid_line h l" and "valid_vptr h s" and "valid_vptr h e"
  shows "Set (Some l) s e h =
     Inr (Some l, h\<lparr>lines := (lines h)[l :=
        \<lparr>start = (case s of None \<Rightarrow> start (lines h ! l) | Some p \<Rightarrow> read_vaddr h p),
         end' = (case e of None \<Rightarrow> end' (lines h ! l)
                 | Some q \<Rightarrow> (case s of None \<Rightarrow> read_vaddr h q
                     | Some p \<Rightarrow> if q = StartOf l then read_vaddr h p else read_vaddr h q))\<rparr>]\<rparr>)"
  using assms by (rule Set_result)

text \<open>
  On \<open>store0\<close>: \<open>Set(&v, nil)\<close> with \<open>v = (1,0,0)\<close> gives the line from \<open>(1,0,0)\<close> to
  \<open>(2,0,0)\<close>, and \<open>Set(nil, nil)\<close> changes nothing.
\<close>

theorem Set_endpoints_witness:
  "valid_line store0 0 \<and> valid_vptr store0 (Some (Cell 0)) \<and> valid_vptr store0 None
   \<and> Set (Some 0) (Some (Cell 0)) None store0 =
       Inr (Some 0, store0\<lparr>lines := [line3 (vec3 f32_one 0 0) (vec3 f32_two 0 0)]\<rparr>)
   \<and> Set (Some 0) None None store0 = Inr (Some 0, store0)"
  using Set_endpoints [of store0 0 "Some (Cell 0)" None] Set_endpoints [of store0 0 None None]
  by (simp add: example_defs)

text \<open>
  C1 as stated fails when the arguments point into the line itself. For the line from
  \<open>A = (0,0,0)\<close> to \<open>B = (2,0,0)\<close>, \<open>l.Set(&l.end, &l.start)\<close> leaves \<open>(B, B)\<close>: the end
  endpoint is not the value \<open>A\<close> that \<open>*e\<close> had at the call. And \<open>l.Set(&l.end, &v)\<close>
  with \<open>v = (1,0,0)\<close> leaves \<open>(B, v)\<close>: the start endpoint is not the value that \<open>*s\<close>
  has after the call.
\<close>

theorem Set_aliasing_counterexample:
  "Set (Some 0) (Some (EndOf 0)) (Some (StartOf 0)) store0 =
     Inr (Some 0, store0\<lparr>lines := [line3 (vec3 f32_two 0 0) (vec3 f32_two 0 0)]\<rparr>)
   \<and> vec3 f32_two 0 0 \<noteq> read_vaddr store0 (StartOf 0)
   \<and> Set (Some 0) (Some (EndOf 0)) (Some (Cell 0)) store0 =
       Inr (Some 0, store0\<lparr>lines := [line3 (vec3 f32_two 0 0) (vec3 f32_one 0 0)]\<rparr>)
   \<and> vec3 f32_two 0 0 \<noteq>
       read_vaddr (store0\<lparr>lines := [line3 (vec3 f32_two 0 0) (vec3 f32_one 0 0)]\<rparr>) (EndOf 0)"
  by (simp add: example_defs Set_def)

section \<open>NewLine3\<close>

lemma valid_vaddr_alloc_line:
  "valid_vaddr h p \<Longrightarrow> valid_vaddr (h\<lparr>lines := lines h @ [x]\<rparr>) p"
  by (cases p) simp_all

lemma read_vaddr_alloc_line:
  "valid_vaddr h p \<Longrightarrow> read_vaddr (h\<lparr>lines := lines h @ [x]\<rparr>) p = read_vaddr h p"
  by (cases p) (simp_all add: nth_append)

lemma valid_vaddr_not_fresh:
  "valid_vaddr h p \<Longrightarrow> p \<noteq> StartOf (length (lines h)) \<and> p \<noteq> EndOf (length (lines h))"
  by (cases p) auto

lemma NewLine3_result:
  assumes "valid_vptr h s" and "valid_vptr h e"
  shows "NewLine3 s e h =
     Inr (Some (length (lines h)), h\<lparr>lines := lines h @
        [\<lparr>start = (case s of None \<Rightarrow> zero_Vector3 | Some p \<Rightarrow> read_vaddr h p),
          end' = (case e of None \<Rightarrow> zero_Vector3 | Some q \<Rightarrow> read_vaddr h q)\<rparr>]\<rparr>)"
proof -
  let ?n = "length (lines h)"
  let ?h1 = "h\<lparr>lines := lines h @ [zero_Line3]\<rparr>"
  have v: "valid_line ?h1 ?n" by (simp add: valid_line_def)
  have vs: "valid_vptr ?h1 s" using assms(1) by (cases s) (simp_all add: valid_vaddr_alloc_line)
  have ve: "valid_vptr ?h1 e" using assms(2) by (cases e) (simp_all add: valid_vaddr_alloc_line)
  have rs: "\<And>p. s = Some p \<Longrightarrow> read_vaddr ?h1 p = read_vaddr h p"
    using assms(1) by (simp add: read_vaddr_alloc_line)
  have re: "\<And>q. e = Some q \<Longrightarrow> read_vaddr ?h1 q = read_vaddr h q \<and> q \<noteq> StartOf ?n"
    using assms(2) by (simp add: read_vaddr_alloc_line valid_vaddr_not_fresh)
  note S = Set_result [OF v vs ve]
  have "NewLine3 s e h = bind (Set (Some ?n) s e ?h1) (\<lambda>(_, h2). Inr (Some ?n, h2))"
    by (simp add: NewLine3_def new_Line3_def)
  also have "\<dots> = Inr (Some ?n, h\<lparr>lines := lines h @
        [\<lparr>start = (case s of None \<Rightarrow> zero_Vector3 | Some p \<Rightarrow> read_vaddr h p),
          end' = (case e of None \<Rightarrow> zero_Vector3 | Some q \<Rightarrow> read_vaddr h q)\<rparr>]\<rparr>)"
    unfolding S using rs re by (cases s; cases e) (simp_all add: zero_Line3_def)
  finally show ?thesis .
qed

lemma write_old_keeps_new_line:
  assumes "valid_vaddr h p" and "lines h' = lines h @ [x]"
  shows "lines (write_vaddr h' p v) ! length (lines h) = x"
  using assms by (cases p) (simp_all add: nth_upd nth_append)

text \<open>
  C9. \<open>NewLine3\<close> with valid or nil arguments never faults. It returns a line at an
  address not used before; an endpoint whose argument is nil is \<open>(0,0,0)\<close>, an endpoint
  whose argument is non-nil holds the value the argument points to. Nothing else in the
  store changes, and a later write through any pointer that existed before the call,
  the caller's vectors among them, leaves the new line as it is.
\<close>

theorem NewLine3_value_copy:
  assumes "valid_vptr h s" and "valid_vptr h e"
  shows "\<exists>h'. NewLine3 s e h = Inr (Some (length (lines h)), h')
     \<and> vecs h' = vecs h
     \<and> lines h' = lines h @
        [\<lparr>start = (case s of None \<Rightarrow> zero_Vector3 | Some p \<Rightarrow> read_vaddr h p),
          end' = (case e of None \<Rightarrow> zero_Vector3 | Some q \<Rightarrow> read_vaddr h q)\<rparr>]
     \<and> (\<forall>p v. valid_vaddr h p \<longrightarrow>
           store_vec h' (Some p) v = Inr (write_vaddr h' p v)
           \<and> lines (write_vaddr h' p v) ! length (lines h) = lines h' ! length (lines h))"
proof -
  let ?x = "\<lparr>start = (case s of None \<Rightarrow> zero_Vector3 | Some p \<Rightarrow> read_vaddr h p),
          end' = (case e of None \<Rightarrow> zero_Vector3 | Some q \<Rightarrow> read_vaddr h q)\<rparr>"
  let ?h' = "h\<lparr>lines := lines h @ [?x]\<rparr>"
  have "NewLine3 s e h = Inr (Some (length (lines h)), ?h')"
    by (rule NewLine3_result [OF assms])
  moreover have "vecs ?h' = vecs h" and L: "lines ?h' = lines h @ [?x]" by simp_all
  moreover have "store_vec ?h' (Some p) v = Inr (write_vaddr ?h' p v)
      \<and> lines (write_vaddr ?h' p v) ! length (lines h) = lines ?h' ! length (lines h)"
    if "valid_vaddr h p" for p v
    using that write_old_keeps_new_line [OF that L, of v]
    by (simp add: valid_vaddr_alloc_line)
  ultimately show ?thesis by blast
qed

text \<open>
  On \<open>store0\<close>: \<open>NewLine3(&v, nil)\<close> with \<open>v = (1,0,0)\<close> returns line 1, from \<open>(1,0,0)\<close>
  to \<open>(0,0,0)\<close>, and overwriting \<open>v\<close> afterwards does not change it.
\<close>

theorem NewLine3_value_copy_witness:
  "valid_vptr store0 (Some (Cell 0)) \<and> valid_vptr store0 None
   \<and> (\<exists>h'. NewLine3 (Some (Cell 0)) None store0 = Inr (Some 1, h')
         \<and> lines h' ! 1 = line3 (vec3 f32_one 0 0) (vec3 0 0 0)
         \<and> lines (write_vaddr h' (Cell 0) (vec3 f32_two f32_two f32_two)) ! 1 =
             line3 (vec3 f32_one 0 0) (vec3 0 0 0))"
  using NewLine3_value_copy [of store0 "Some (Cell 0)" None]
  by (auto simp: example_defs)

section \<open>Copy and Equals\<close>

lemma load_line_valid [simp]: "valid_line h a \<Longrightarrow> load_line h (Some a) = Inr (lines h ! a)"
  by (simp add: load_line_def)

lemma store_line_valid [simp]:
  "valid_line h a \<Longrightarrow> store_line h (Some a) v = Inr (h\<lparr>lines := (lines h)[a := v]\<rparr>)"
  by (simp add: store_line_def)

text \<open>
  C10. \<open>l.Copy(nil)\<close> and \<open>l.Equals(nil)\<close> fault with a nil dereference, whatever \<open>l\<close>
  is, while \<open>l.Set(nil, nil)\<close> and \<open>NewLine3(nil, nil)\<close> return normally. With \<open>l\<close> and
  \<open>other\<close> both non-nil, \<open>Copy\<close> does not fault: it replaces the whole line \<open>l\<close> by the
  value of \<open>other\<close>, changes nothing else and returns \<open>l\<close>; and \<open>Equals\<close> returns a
  boolean.
\<close>

theorem Copy_Equals_other_nil:
  "Copy l None h = Inl NilDereference
   \<and> Equals l None h = Inl NilDereference
   \<and> Set l None None h = Inr (l, h)
   \<and> NewLine3 None None h =
       Inr (Some (length (lines h)), h\<lparr>lines := lines h @ [zero_Line3]\<rparr>)
   \<and> (valid_line h a \<and> valid_line h b \<longrightarrow>
        Copy (Some a) (Some b) h = Inr (Some a, h\<lparr>lines := (lines h)[a := lines h ! b]\<rparr>)
        \<and> (\<exists>r. Equals (Some a) (Some b) h = Inr r))"
  by (auto simp: Copy_def Equals_def load_line_def Vector3_Equals_def valid_line_def Set_def
      NewLine3_def new_Line3_def)

text \<open>
  On \<open>store1\<close>: copying line 2 to line 0.
\<close>

theorem Copy_Equals_other_nil_witness:
  "valid_line store1 0 \<and> valid_line store1 2
   \<and> Copy (Some 0) (Some 2) store1 =
       Inr (Some 0, store1\<lparr>lines := [line3 (vec3 0 0 0) (vec3 f32_two 0 f32_one),
              line3 (vec3 0 0 0) (vec3 f32_two 0 0), line3 (vec3 0 0 0) (vec3 f32_two 0 f32_one)]\<rparr>)
   \<and> Copy (Some 0) None store1 = Inl NilDereference
   \<and> Equals (Some 0) None store1 = Inl NilDereference"
  using Copy_Equals_other_nil [of "Some 0" store1 0 2]
  by (simp add: example_defs)

lemma f32_eq_sym: "f32_eq a b = f32_eq b a"
  by (auto simp: f32_eq_def)

lemma vec_eq_sym: "vec_eq a b = vec_eq b a"
  by (auto simp: vec_eq_def f32_eq_sym)

lemma Equals_result:
  assumes "valid_line h a" and "valid_line h b"
  shows "Equals (Some a) (Some b) h =
     Inr (vec_eq (start (lines h ! b)) (start (lines h ! a))
          \<and> vec_eq (end' (lines h ! b)) (end' (lines h ! a)))"
  using assms by (simp add: Equals_def Vector3_Equals_def valid_line_def)

text \<open>
  C5. For non-nil \<open>l\<close> and \<open>other\<close>, \<open>l.Equals(other)\<close> is true exactly when the start
  endpoints are equal and the end endpoints are equal under the vector equality; \<open>Line3\<close>
  adds no tolerance of its own.
\<close>

theorem Equals_iff:
  assumes "valid_line h a" and "valid_line h b"
  shows "Equals (Some a) (Some b) h =
     Inr (vec_eq (start (lines h ! a)) (start (lines h ! b))
          \<and> vec_eq (end' (lines h ! a)) (end' (lines h ! b)))"
  using Equals_result [OF assms] by (simp add: vec_eq_sym)


text \<open>
  On \<open>store1\<close>: the line from \<open>(0,0,0)\<close> to \<open>(2,0,0)\<close> equals the other line with these
  endpoints and does not equal the line from \<open>(0,0,0)\<close> to \<open>(2,0,1)\<close>.
\<close>

theorem Equals_iff_witness:
  "valid_line store1 0 \<and> valid_line store1 1 \<and> valid_line store1 2
   \<and> Equals (Some 0) (Some 1) store1 = Inr True
   \<and> Equals (Some 0) (Some 2) store1 = Inr False"
  using Equals_iff [of store1 0 1] Equals_iff [of store1 0 2]
  by (simp add: example_defs vec_eq_def f32_eq_def f32_is_nan_def f32_exp_def f32_frac_def
      f32_mag_def)

section \<open>Clone\<close>

lemma vec_eq_refl: "vec_eq v v = vec_no_nan v"
  by (auto simp: vec_eq_def vec_no_nan_def f32_eq_def)

lemma Clone_result:
  assumes "valid_line h l"
  shows "Clone (Some l) h = Inr (Some (length (lines h)), h\<lparr>lines := lines h @ [lines h ! l]\<rparr>)"
proof -
  have "valid_vptr h (Some (StartOf l))" and "valid_vptr h (Some (EndOf l))"
    using assms by (simp_all add: valid_line_def)
  then show ?thesis
    by (simp add: Clone_def NewLine3_result)
qed

text \<open>
  C8, as amended. \<open>Clone\<close> of a non-nil line returns a line at an address not used
  before, with the same endpoint values as the original, and changes nothing else. The
  two lines share no state: a write through \<open>Start()\<close> or \<open>End()\<close> of the clone leaves
  the original as it is, and a write through those of the original leaves the clone as
  it is. \<open>Equals\<close> between the clone and the original is true exactly when no endpoint
  component is a NaN.
\<close>

theorem Clone_independent:
  assumes "valid_line h l"
  shows "\<exists>n h'. Clone (Some l) h = Inr (Some n, h')
     \<and> n = length (lines h) \<and> \<not> valid_line h n \<and> n \<noteq> l \<and> valid_line h' n \<and> valid_line h' l
     \<and> h' = h\<lparr>lines := lines h @ [lines h ! l]\<rparr>
     \<and> lines h' ! n = lines h ! l \<and> lines h' ! l = lines h ! l
     \<and> (\<forall>v. lines (write_vaddr h' (StartOf n) v) ! l = lines h' ! l
            \<and> lines (write_vaddr h' (EndOf n) v) ! l = lines h' ! l
            \<and> lines (write_vaddr h' (StartOf l) v) ! n = lines h' ! n
            \<and> lines (write_vaddr h' (EndOf l) v) ! n = lines h' ! n)
     \<and> Equals (Some n) (Some l) h' =
         Inr (vec_no_nan (start (lines h ! l)) \<and> vec_no_nan (end' (lines h ! l)))"
proof -
  let ?n = "length (lines h)"
  let ?h' = "h\<lparr>lines := lines h @ [lines h ! l]\<rparr>"
  have l: "l < ?n" using assms by (simp add: valid_line_def)
  have vn: "valid_line ?h' ?n" and vl: "valid_line ?h' l"
    using l by (simp_all add: valid_line_def)
  have "Equals (Some ?n) (Some l) ?h' =
         Inr (vec_no_nan (start (lines h ! l)) \<and> vec_no_nan (end' (lines h ! l)))"
    using l by (simp add: Equals_result [OF vn vl] nth_append vec_eq_refl)
  moreover have "lines (write_vaddr ?h' (StartOf ?n) v) ! l = lines ?h' ! l
            \<and> lines (write_vaddr ?h' (EndOf ?n) v) ! l = lines ?h' ! l
            \<and> lines (write_vaddr ?h' (StartOf l) v) ! ?n = lines ?h' ! ?n
            \<and> lines (write_vaddr ?h' (EndOf l) v) ! ?n = lines ?h' ! ?n" for v
    using l by (simp add: nth_upd nth_append)
  moreover have "?n \<noteq> l" "lines ?h' ! ?n = lines h ! l" "lines ?h' ! l = lines h ! l"
    "\<not> valid_line h ?n"
    using l by (simp_all add: nth_append valid_line_def)
  ultimately show ?thesis
    using Clone_result [OF assms] vn vl by blast
qed


text \<open>
  On \<open>store0\<close>: the clone of line 0 is line 1, equal to line 0, and overwriting the
  clone's start leaves line 0 as it is.
\<close>

theorem Clone_independent_witness:
  "valid_line store0 0
   \<and> (\<exists>h'. Clone (Some 0) store0 = Inr (Some 1, h')
         \<and> lines h' = [line3 (vec3 0 0 0) (vec3 f32_two 0 0), line3 (vec3 0 0 0) (vec3 f32_two 0 0)]
         \<and> Equals (Some 1) (Some 0) h' = Inr True
         \<and> lines (write_vaddr h' (StartOf 1) (vec3 f32_one f32_one f32_one)) ! 0 =
             line3 (vec3 0 0 0) (vec3 f32_two 0 0))"
  using Clone_independent [of store0 0]
  by (auto simp: example_defs vec_no_nan_def f32_is_nan_def f32_exp_def f32_frac_def)

text \<open>
  C8 as stated fails for a line with a NaN component: the clone of the line from
  \<open>(NaN,0,0)\<close> to \<open>(0,0,0)\<close> has the same endpoint values, and \<open>Equals\<close> between the
  clone and the original is false.
\<close>

theorem Clone_Equals_counterexample:
  "Clone (Some 0) store_nan =
     Inr (Some 1, \<lparr>vecs = [], lines = [line3 (vec3 f32_nan 0 0) (vec3 0 0 0),
                                       line3 (vec3 f32_nan 0 0) (vec3 0 0 0)]\<rparr>)
   \<and> Equals (Some 1) (Some 0)
        \<lparr>vecs = [], lines = [line3 (vec3 f32_nan 0 0) (vec3 0 0 0),
                             line3 (vec3 f32_nan 0 0) (vec3 0 0 0)]\<rparr> = Inr False"
proof -
  have v: "valid_line store_nan 0"
    by (simp add: example_defs)
  have "Equals (Some 1) (Some 0)
        \<lparr>vecs = [], lines = [line3 (vec3 f32_nan 0 0) (vec3 0 0 0),
                             line3 (vec3 f32_nan 0 0) (vec3 0 0 0)]\<rparr> = Inr False"
    by (simp add: Equals_def Vector3_Equals_def vec_eq_def f32_eq_def f32_is_nan_def f32_exp_def
        f32_frac_def f32_nan_def vec3_def line3_def)
  then show ?thesis
    using Clone_result [OF v] by (simp add: example_defs)
qed

section \<open>Center and Delta\<close>

lemma write_write_same:
  "valid_vaddr h a \<Longrightarrow> write_vaddr (write_vaddr h a v) a w = write_vaddr h a w"
  by (cases a) simp_all

lemma lines_write_other:
  "a \<noteq> StartOf l \<Longrightarrow> a \<noteq> EndOf l \<Longrightarrow> lines (write_vaddr h a v) ! l = lines h ! l"
  by (cases a) (auto simp: nth_upd)

lemma valid_vaddr_alloc_vec:
  "valid_vaddr h p \<Longrightarrow> valid_vaddr (h\<lparr>vecs := vecs h @ [x]\<rparr>) p"
  by (cases p) simp_all

lemma read_vaddr_alloc_vec:
  "valid_vaddr h p \<Longrightarrow> read_vaddr (h\<lparr>vecs := vecs h @ [x]\<rparr>) p = read_vaddr h p"
  by (cases p) (simp_all add: nth_append)

text \<open>The target of \<open>Center\<close> and \<open>Delta\<close> and the store it lives in.\<close>

lemma Center_result:
  assumes "valid_line h l" and "valid_vptr h t"
  shows "Center (Some l) t h =
     (case t of
        None \<Rightarrow> Inr (Some (Cell (length (vecs h))),
                  write_vaddr (h\<lparr>vecs := vecs h @ [\<lparr>X = 0, Y = 0, Z = 0\<rparr>]\<rparr>) (Cell (length (vecs h)))
                    (vec_scale (vec_add (start (lines h ! l)) (end' (lines h ! l))) f32_half))
      | Some p \<Rightarrow> Inr (Some p,
                  write_vaddr h p
                    (vec_scale (vec_add (start (lines h ! l)) (end' (lines h ! l))) f32_half)))"
proof (cases t)
  case None
  with assms show ?thesis
    by (simp add: Center_def NewVector3_def Vector3_AddVectors_def Vector3_MultiplyScalar_def
        valid_line_def)
next
  case (Some p)
  with assms show ?thesis
    by (simp add: Center_def Vector3_AddVectors_def Vector3_MultiplyScalar_def
        valid_line_def write_write_same)
qed

lemma Delta_result:
  assumes "valid_line h l" and "valid_vptr h t"
  shows "Delta (Some l) t h =
     (case t of
        None \<Rightarrow> Inr (Some (Cell (length (vecs h))),
                  write_vaddr (h\<lparr>vecs := vecs h @ [\<lparr>X = 0, Y = 0, Z = 0\<rparr>]\<rparr>) (Cell (length (vecs h)))
                    (vec_sub (end' (lines h ! l)) (start (lines h ! l))))
      | Some p \<Rightarrow> Inr (Some p,
                  write_vaddr h p (vec_sub (end' (lines h ! l)) (start (lines h ! l)))))"
proof (cases t)
  case None
  with assms show ?thesis
    by (simp add: Delta_def NewVector3_def Vector3_SubVectors_def valid_line_def)
next
  case (Some p)
  with assms show ?thesis
    by (simp add: Delta_def Vector3_SubVectors_def valid_line_def)
qed

text \<open>What a write to a target, fresh or supplied, does to the rest of the store.\<close>

lemma target_write:
  fixes v :: Vector3 and l :: nat
  assumes "valid_vptr h t"
  defines "r \<equiv> (case t of None \<Rightarrow> Cell (length (vecs h)) | Some p \<Rightarrow> p)"
  defines "h' \<equiv> (case t of
      None \<Rightarrow> write_vaddr (h\<lparr>vecs := vecs h @ [\<lparr>X = 0, Y = 0, Z = 0\<rparr>]\<rparr>) (Cell (length (vecs h))) v
    | Some p \<Rightarrow> write_vaddr h p v)"
  shows "(case t of None \<Rightarrow> r = Cell (length (vecs h)) \<and> \<not> valid_vaddr h r | Some p \<Rightarrow> r = p)
     \<and> valid_vaddr h' r
     \<and> read_vaddr h' r = v
     \<and> (r \<noteq> StartOf l \<and> r \<noteq> EndOf l \<longrightarrow> lines h' ! l = lines h ! l)
     \<and> (\<forall>q. valid_vaddr h q \<and> q \<noteq> r \<longrightarrow> read_vaddr h' q = read_vaddr h q)"
proof (cases t)
  case None
  have "read_vaddr h' q = read_vaddr h q" if "valid_vaddr h q" for q
    using that None by (cases q) (simp_all add: h'_def nth_append)
  with None show ?thesis
    by (simp add: r_def h'_def)
next
  case (Some p)
  with assms(1) have p: "valid_vaddr h p" by simp
  with Some show ?thesis
    by (auto simp: r_def h'_def read_write_other lines_write_other)
qed

text \<open>
  C2, as amended. For a non-nil line with endpoints \<open>A\<close> and \<open>B\<close>, \<open>Center\<close> does not
  fault. With a nil target it returns a vector at an address not used before; with a
  non-nil target it returns that target. The returned vector holds \<open>(A + B) * 0.5\<close>, the
  componentwise sum scaled by \<open>0.5\<close>. Nothing but the returned vector is written: every
  other vector of the store keeps its value, so the line's endpoints are unchanged
  unless the target is \<open>&l.start\<close> or \<open>&l.end\<close> itself.
\<close>

theorem Center_target:
  assumes "valid_line h l" and "valid_vptr h t"
  shows "\<exists>r h'. Center (Some l) t h = Inr (Some r, h')
     \<and> (case t of None \<Rightarrow> r = Cell (length (vecs h)) \<and> \<not> valid_vaddr h r | Some p \<Rightarrow> r = p)
     \<and> valid_vaddr h' r
     \<and> read_vaddr h' r = vec_scale (vec_add (start (lines h ! l)) (end' (lines h ! l))) f32_half
     \<and> (r \<noteq> StartOf l \<and> r \<noteq> EndOf l \<longrightarrow> lines h' ! l = lines h ! l)
     \<and> (\<forall>q. valid_vaddr h q \<and> q \<noteq> r \<longrightarrow> read_vaddr h' q = read_vaddr h q)"
  using target_write [OF assms(2), where l = l
      and v = "vec_scale (vec_add (start (lines h ! l)) (end' (lines h ! l))) f32_half"]
    Center_result [OF assms]
  by (cases t) auto

text \<open>
  On \<open>store0\<close>, whose line goes from \<open>(0,0,0)\<close> to \<open>(2,0,0)\<close>: with the vector at
  \<open>Cell 0\<close> as target, \<open>Center\<close> returns that target holding \<open>(1,0,0)\<close> and the line is
  unchanged; with a nil target it returns the new vector \<open>Cell 1\<close> holding \<open>(1,0,0)\<close>.
\<close>

theorem Center_target_witness:
  "valid_line store0 0 \<and> valid_vptr store0 (Some (Cell 0)) \<and> valid_vptr store0 None
   \<and> (\<exists>h'. Center (Some 0) (Some (Cell 0)) store0 = Inr (Some (Cell 0), h')
         \<and> read_vaddr h' (Cell 0) = vec3 f32_one 0 0
         \<and> lines h' ! 0 = line3 (vec3 0 0 0) (vec3 f32_two 0 0))
   \<and> (\<exists>h'. Center (Some 0) None store0 = Inr (Some (Cell 1), h')
         \<and> read_vaddr h' (Cell 1) = vec3 f32_one 0 0
         \<and> lines h' ! 0 = line3 (vec3 0 0 0) (vec3 f32_two 0 0))"
  using Center_target [of store0 0 "Some (Cell 0)"] Center_target [of store0 0 None]
  by (auto simp: store0_def valid_line_def vec3_def line3_def vec_scale_def vec_add_def
      f32_examples)

text \<open>
  C2 as stated fails when the target is an endpoint of the line itself:
  \<open>l.Center(l.Start())\<close> on the line from \<open>(0,0,0)\<close> to \<open>(2,0,0)\<close> overwrites the start
  with \<open>(1,0,0)\<close>.
\<close>

theorem Center_aliasing_counterexample:
  "Center (Some 0) (Some (StartOf 0)) store0 =
     Inr (Some (StartOf 0), store0\<lparr>lines := [line3 (vec3 f32_one 0 0) (vec3 f32_two 0 0)]\<rparr>)
   \<and> start (lines (store0\<lparr>lines := [line3 (vec3 f32_one 0 0) (vec3 f32_two 0 0)]\<rparr>) ! 0)
       \<noteq> start (lines store0 ! 0)"
  by (simp add: Center_def Vector3_AddVectors_def Vector3_MultiplyScalar_def store0_def
      vec3_def line3_def vec_scale_def vec_add_def f32_examples)
     (simp add: f32_one_def)

text \<open>
  C3, as amended. For a non-nil line with endpoints \<open>A\<close> and \<open>B\<close>, \<open>Delta\<close> does not
  fault. With a nil target it returns a vector at an address not used before; with a
  non-nil target it returns that target. The returned vector holds \<open>B - A\<close>, the
  componentwise difference. Nothing but the returned vector is written: every other
  vector of the store keeps its value, so the line's endpoints are unchanged unless the
  target is \<open>&l.start\<close> or \<open>&l.end\<close> itself.
\<close>

theorem Delta_target:
  assumes "valid_line h l" and "valid_vptr h t"
  shows "\<exists>r h'. Delta (Some l) t h = Inr (Some r, h')
     \<and> (case t of None \<Rightarrow> r = Cell (length (vecs h)) \<and> \<not> valid_vaddr h r | Some p \<Rightarrow> r = p)
     \<and> valid_vaddr h' r
     \<and> read_vaddr h' r = vec_sub (end' (lines h ! l)) (start (lines h ! l))
     \<and> (r \<noteq> StartOf l \<and> r \<noteq> EndOf l \<longrightarrow> lines h' ! l = lines h ! l)
     \<and> (\<forall>q. valid_vaddr h q \<and> q \<noteq> r \<longrightarrow> read_vaddr h' q = read_vaddr h q)"
  using target_write [OF assms(2), where l = l
      and v = "vec_sub (end' (lines h ! l)) (start (lines h ! l))"]
    Delta_result [OF assms]
  by (cases t) auto

text \<open>
  On \<open>store0\<close>: with the vector at \<open>Cell 0\<close> as target, \<open>Delta\<close> returns that target
  holding \<open>(2,0,0)\<close> and the line is unchanged; with a nil target it returns the new
  vector \<open>Cell 1\<close> holding \<open>(2,0,0)\<close>.
\<close>

theorem Delta_target_witness:
  "valid_line store0 0 \<and> valid_vptr store0 (Some (Cell 0)) \<and> valid_vptr store0 None
   \<and> (\<exists>h'. Delta (Some 0) (Some (Cell 0)) store0 = Inr (Some (Cell 0), h')
         \<and> read_vaddr h' (Cell 0) = vec3 f32_two 0 0
         \<and> lines h' ! 0 = line3 (vec3 0 0 0) (vec3 f32_two 0 0))
   \<and> (\<exists>h'. Delta (Some 0) None store0 = Inr (Some (Cell 1), h')
         \<and> read_vaddr h' (Cell 1) = vec3 f32_two 0 0
         \<and> lines h' ! 0 = line3 (vec3 0 0 0) (vec3 f32_two 0 0))"
  using Delta_target [of store0 0 "Some (Cell 0)"] Delta_target [of store0 0 None]
  by (auto simp: store0_def valid_line_def vec3_def line3_def vec_sub_def f32_examples)

text \<open>
  C3 as stated fails when the target is an endpoint of the line itself:
  \<open>l.Delta(l.Start())\<close> on the line from \<open>(0,0,0)\<close> to \<open>(2,0,0)\<close> overwrites the start
  with \<open>(2,0,0)\<close>.
\<close>

theorem Delta_aliasing_counterexample:
  "Delta (Some 0) (Some (StartOf 0)) store0 =
     Inr (Some (StartOf 0), store0\<lparr>lines := [line3 (vec3 f32_two 0 0) (vec3 f32_two 0 0)]\<rparr>)
   \<and> start (lines (store0\<lparr>lines := [line3 (vec3 f32_two 0 0) (vec3 f32_two 0 0)]\<rparr>) ! 0)
       \<noteq> start (lines store0 ! 0)"
  by (simp add: Delta_def Vector3_SubVectors_def store0_def vec3_def line3_def vec_sub_def
      f32_examples)
     (simp add: f32_two_def)

section \<open>ApplyMatrix4\<close>





section \<open>OperateOnVertices and ReadVertices\<close>

lemma call_Some [simp]: "call (Some f) x w = f x w"
  by (simp add: call_def)

lemma traced_Inr:
  "cb x (h, c) = Inr (stop, h1, c1) \<Longrightarrow> traced cb x (h, c, log) = Inr (stop, h1, c1, log @ [x])"
  by (simp add: traced_def)

text \<open>
  C7. \<open>OperateOnVertices\<close> on a non-nil line calls the callback on \<open>&t.start\<close> first.
  If that call returns true the callback is not called again: the call log is the
  start pointer alone. If it returns false the callback is called once more, on
  \<open>&t.end\<close>, whatever that call returns: the log is the start pointer, then the end
  pointer. The traversal returns no value and writes nothing itself; the store it
  leaves is the one the callback left, so edits through the pointers are retained.
  \<open>ReadVertices\<close> has the same order and stop rule and passes the endpoint values, the
  end as it is when the second call is made; a callback that works on the value it is
  given leaves the store, and so the line, unchanged.
\<close>

theorem vertex_traversal:
  fixes cb :: "vptr \<Rightarrow> heap \<times> 'c \<Rightarrow> fault + (bool \<times> heap \<times> 'c)"
    and rb :: "Vector3 \<Rightarrow> heap \<times> 'c \<Rightarrow> fault + (bool \<times> heap \<times> 'c)"
    and g :: "Vector3 \<Rightarrow> 'd \<Rightarrow> bool \<times> 'd"
  shows
   "(cb (Some (StartOf t)) (h, c) = Inr (True, h1, c1) \<longrightarrow>
       OperateOnVertices (Some t) (Some cb) (h, c) = Inr (h1, c1)
       \<and> OperateOnVertices (Some t) (Some (traced cb)) (h, c, []) =
           Inr (h1, c1, [Some (StartOf t)]))
    \<and> (cb (Some (StartOf t)) (h, c) = Inr (False, h1, c1)
         \<and> cb (Some (EndOf t)) (h1, c1) = Inr (b, h2, c2) \<longrightarrow>
       OperateOnVertices (Some t) (Some cb) (h, c) = Inr (h2, c2)
       \<and> OperateOnVertices (Some t) (Some (traced cb)) (h, c, []) =
           Inr (h2, c2, [Some (StartOf t), Some (EndOf t)]))
    \<and> (valid_line h t \<and> rb (start (lines h ! t)) (h, c) = Inr (True, h1, c1) \<longrightarrow>
       ReadVertices (Some t) (Some rb) (h, c) = Inr (h1, c1)
       \<and> ReadVertices (Some t) (Some (traced rb)) (h, c, []) =
           Inr (h1, c1, [start (lines h ! t)]))
    \<and> (valid_line h t \<and> rb (start (lines h ! t)) (h, c) = Inr (False, h1, c1)
         \<and> valid_line h1 t \<and> rb (end' (lines h1 ! t)) (h1, c1) = Inr (b, h2, c2) \<longrightarrow>
       ReadVertices (Some t) (Some rb) (h, c) = Inr (h2, c2)
       \<and> ReadVertices (Some t) (Some (traced rb)) (h, c, []) =
           Inr (h2, c2, [start (lines h ! t), end' (lines h1 ! t)]))
    \<and> (valid_line h t \<longrightarrow>
         (\<exists>d'. ReadVertices (Some t) (Some (value_callback g)) (h, d) = Inr (h, d')))"
proof (intro conjI impI)
  assume a: "cb (Some (StartOf t)) (h, c) = Inr (True, h1, c1)"
  then show "OperateOnVertices (Some t) (Some cb) (h, c) = Inr (h1, c1)"
    by (simp add: OperateOnVertices_def)
  from a show "OperateOnVertices (Some t) (Some (traced cb)) (h, c, []) =
           Inr (h1, c1, [Some (StartOf t)])"
    by (simp add: OperateOnVertices_def traced_Inr)
next
  assume a: "cb (Some (StartOf t)) (h, c) = Inr (False, h1, c1)
         \<and> cb (Some (EndOf t)) (h1, c1) = Inr (b, h2, c2)"
  then show "OperateOnVertices (Some t) (Some cb) (h, c) = Inr (h2, c2)"
    by (simp add: OperateOnVertices_def)
  from a show "OperateOnVertices (Some t) (Some (traced cb)) (h, c, []) =
           Inr (h2, c2, [Some (StartOf t), Some (EndOf t)])"
    by (simp add: OperateOnVertices_def traced_def)
next
  assume a: "valid_line h t \<and> rb (start (lines h ! t)) (h, c) = Inr (True, h1, c1)"
  then show "ReadVertices (Some t) (Some rb) (h, c) = Inr (h1, c1)"
    by (simp add: ReadVertices_def valid_line_def)
  from a show "ReadVertices (Some t) (Some (traced rb)) (h, c, []) =
           Inr (h1, c1, [start (lines h ! t)])"
    by (simp add: ReadVertices_def valid_line_def traced_Inr)
next
  assume a: "valid_line h t \<and> rb (start (lines h ! t)) (h, c) = Inr (False, h1, c1)
         \<and> valid_line h1 t \<and> rb (end' (lines h1 ! t)) (h1, c1) = Inr (b, h2, c2)"
  then show "ReadVertices (Some t) (Some rb) (h, c) = Inr (h2, c2)"
    by (simp add: ReadVertices_def valid_line_def)
  from a show "ReadVertices (Some t) (Some (traced rb)) (h, c, []) =
           Inr (h2, c2, [start (lines h ! t), end' (lines h1 ! t)])"
    by (simp add: ReadVertices_def valid_line_def traced_def)
next
  assume "valid_line h t"
  then show "\<exists>d'. ReadVertices (Some t) (Some (value_callback g)) (h, d) = Inr (h, d')"
    by (simp add: ReadVertices_def valid_line_def value_callback_def split: prod.splits)
qed

text \<open>
  On \<open>store0\<close>: the callback that zeroes its vertex and continues is called on the
  start, then on the end, and leaves the line at \<open>(0,0,0)\<close>, \<open>(0,0,0)\<close>; the callback
  that stops at once is called on the start only; the counting callback of
  \<open>ReadVertices\<close> receives \<open>(0,0,0)\<close>, then \<open>(2,0,0)\<close>, and the store is unchanged.
\<close>

theorem vertex_traversal_witness:
  "OperateOnVertices (Some 0) (Some (traced clear_vertex)) (store0, (), []) =
     Inr (store0\<lparr>lines := [zero_Line3]\<rparr>, (), [Some (StartOf 0), Some (EndOf 0)])
   \<and> OperateOnVertices (Some 0) (Some (traced stop_at_first)) (store0, (), []) =
     Inr (store0, (), [Some (StartOf 0)])
   \<and> valid_line store0 0
   \<and> ReadVertices (Some 0) (Some (traced stop_at_first)) (store0, (), []) =
     Inr (store0, (), [vec3 0 0 0])
   \<and> ReadVertices (Some 0) (Some (traced (value_callback count_call))) (store0, 0, []) =
     Inr (store0, 2, [vec3 0 0 0, vec3 f32_two 0 0])"
  using
    vertex_traversal [of clear_vertex 0 store0 "()" "store0\<lparr>lines := [line3 zero_Vector3 (vec3 f32_two 0 0)]\<rparr>" "()"
       False "store0\<lparr>lines := [zero_Line3]\<rparr>" "()" stop_at_first count_call 0]
    vertex_traversal [of stop_at_first 0 store0 "()" store0 "()"
       False store0 "()" stop_at_first count_call 0]
    vertex_traversal [of stop_at_first 0 store0 "0::nat" store0 "Suc 0"
       False store0 "2::nat" "value_callback count_call" count_call 0]
  by (simp add: example_defs clear_vertex_def stop_at_first_def value_callback_def count_call_def)


section \<open>DistanceSq and Distance\<close>

text \<open>Negation flips the sign bit and nothing else.\<close>

lemma bit_256: "bit (256 :: 'a::len word) n = (n = 8 \<and> n < LENGTH('a))"
proof -
  have e: "(256 :: 'a word) = 2 ^ 8" by simp
  show ?thesis by (subst e) (simp only: bit_exp_iff, auto)
qed

lemma bit_top: "bit (0x80000000 :: 'a::len word) n = (n = 31 \<and> n < LENGTH('a))"
proof -
  have e: "(0x80000000 :: 'a word) = 2 ^ 31" by simp
  show ?thesis by (subst e) (simp only: bit_exp_iff, auto)
qed

lemma bit_256_int: "bit (256 :: int) n = (n = 8)"
proof -
  have e: "(256 :: int) = 2 ^ 8" by simp
  show ?thesis by (subst e) (simp only: bit_exp_iff, auto)
qed

lemma bit_top_int: "bit (0x80000000 :: int) n = (n = 31)"
proof -
  have e: "(0x80000000 :: int) = 2 ^ 31" by simp
  show ?thesis by (subst e) (simp only: bit_exp_iff, auto)
qed

lemma masks: "(0xFF :: 32 word) = mask 8" "(0x7FFFFF :: 32 word) = mask 23"
  by (simp_all add: mask_eq_exp_minus_1)

lemma f32_exp_neg [simp]: "f32_exp (f32_neg w) = f32_exp w"
proof -
  have "drop_bit 23 (w XOR 0x80000000) AND 0xFF = drop_bit 23 w AND (0xFF :: 32 word)"
    unfolding masks
    by (rule bit_word_eqI) (auto simp: bit_simps bit_top bit_256 bit_256_int bit_top_int)
  then show ?thesis
    by (simp only: f32_exp_def f32_neg_def)
qed

lemma f32_frac_neg [simp]: "f32_frac (f32_neg w) = f32_frac w"
proof -
  have "(w XOR 0x80000000) AND 0x7FFFFF = w AND (0x7FFFFF :: 32 word)"
    unfolding masks
    by (rule bit_word_eqI) (auto simp: bit_simps bit_top bit_256 bit_256_int bit_top_int)
  then show ?thesis
    by (simp only: f32_frac_def f32_neg_def)
qed

lemma f32_sign_neg [simp]: "f32_sign (f32_neg w) = (\<not> f32_sign w)"
  by (simp add: f32_sign_def f32_neg_def bit_simps bit_top)

lemma f32_mag_neg [simp]: "f32_mag (f32_neg w) = f32_mag w"
  by (simp add: f32_mag_def)

lemma f32_val_neg [simp]: "f32_val (f32_neg w) = - f32_val w"
  by (simp add: f32_val_def)

lemma f32_zero_facts [simp]:
  "f32_exp 0 = 0" "f32_frac 0 = 0" "f32_exp 0x80000000 = 0" "f32_frac 0x80000000 = 0"
  by (simp_all add: f32_exp_def f32_frac_def)



text \<open>
  The difference of two finite values that are equal under \<open>==\<close> is a zero, and the
  square of a zero is \<open>+0\<close>.
\<close>

lemma f32_eq_val:
  assumes "f32_eq x y"
  shows "f32_val x = f32_val y"
  using assms by (auto simp: f32_eq_def f32_val_def)

lemma f32_eq_finite:
  assumes "f32_eq x y" and "f32_finite x"
  shows "f32_finite y"
proof (cases "x = y")
  case True
  with assms show ?thesis by simp
next
  case False
  with assms have "f32_mag y = 0" by (simp add: f32_eq_def)
  then show ?thesis
    by (auto simp: f32_mag_def f32_finite_def split: if_splits)
qed

lemma f32_sub_eq:
  assumes "f32_eq x y" and "f32_finite x"
  shows "f32_sub x y = 0 \<or> f32_sub x y = 0x80000000"
proof -
  have fy: "f32_finite y" using assms by (rule f32_eq_finite)
  have "f32_val x + f32_val (f32_neg y) = 0"
    using f32_eq_val [OF assms(1)] by simp
  then show ?thesis
    using assms(2) fy
    by (simp add: f32_sub_def f32_add_def f32_is_nan_def f32_is_inf_def f32_finite_def)
qed

lemma bitlen_0: "bitlen 0 = 0"
  by (simp add: bitlen.simps)

lemma f32_round_zero: "f32_round False u 0 = 0"
  by (simp add: f32_round_def bitlen_0 Let_def)

lemma f32_mag_zero [simp]: "f32_mag 0 = 0" "f32_mag 0x80000000 = 0"
  by (simp_all add: f32_mag_def)

lemma f32_mul_zero:
  assumes "d = 0 \<or> d = 0x80000000"
  shows "f32_mul d d = 0"
proof -
  have "f32_mag d = 0" and "\<not> f32_is_nan d" and "\<not> f32_is_inf d"
    using assms by (auto simp: f32_is_nan_def f32_is_inf_def)
  then show ?thesis
    by (simp add: f32_mul_def f32_round_zero)
qed

lemma f32_sqrt_zero: "f32_sqrt 0 = 0"
  by (simp add: f32_sqrt_def f32_is_nan_def)

lemma vec_dist_sq_eq:
  assumes "vec_eq a b" and "vec_finite a"
  shows "vec_dist_sq a b = 0"
proof -
  have "f32_mul (f32_sub (X a) (X b)) (f32_sub (X a) (X b)) = 0"
    "f32_mul (f32_sub (Y a) (Y b)) (f32_sub (Y a) (Y b)) = 0"
    "f32_mul (f32_sub (Z a) (Z b)) (f32_sub (Z a) (Z b)) = 0"
    using assms by (simp_all add: vec_eq_def vec_finite_def f32_sub_eq f32_mul_zero)
  then show ?thesis
    by (simp add: vec_dist_sq_def f32_examples)
qed

text \<open>
  The integer square root is the largest \<open>s\<close> with \<open>s * s \<le> n\<close>, which determines it;
  with that, \<open>sqrt 4 = 2\<close> in \<open>float32\<close>.
\<close>

lemma bitlen_bound: "n < 2 ^ bitlen n"
proof (induction n rule: bitlen.induct)
  case (1 n)
  show ?case
  proof (cases "n = 0")
    case True
    then show ?thesis by (simp add: bitlen.simps)
  next
    case False
    with 1 have "n div 2 < 2 ^ bitlen (n div 2)" by simp
    then have "n < 2 * 2 ^ bitlen (n div 2)" by linarith
    with False show ?thesis by (subst bitlen.simps) simp
  qed
qed

lemma isqrt_digits_correct:
  assumes "r * r \<le> n" and "n < (r + 2 ^ k) * (r + 2 ^ k)"
  shows "isqrt_digits k r n * isqrt_digits k r n \<le> n
     \<and> n < (isqrt_digits k r n + 1) * (isqrt_digits k r n + 1)"
  using assms
proof (induction k arbitrary: r)
  case 0
  then show ?case by simp
next
  case (Suc k)
  show ?case
  proof (cases "(r + 2 ^ k) * (r + 2 ^ k) \<le> n")
    case True
    have e: "r + 2 ^ k + 2 ^ k = r + 2 ^ Suc k" by simp
    have "n < (r + 2 ^ k + 2 ^ k) * (r + 2 ^ k + 2 ^ k)"
      using Suc.prems(2) by (simp only: e)
    with True Suc.IH [of "r + 2 ^ k"] show ?thesis by (simp add: Let_def)
  next
    case False
    then have "n < (r + 2 ^ k) * (r + 2 ^ k)" by simp
    with False Suc.prems(1) Suc.IH [of r] show ?thesis by (simp add: Let_def)
  qed
qed

lemma isqrt_correct: "isqrt n * isqrt n \<le> n \<and> n < (isqrt n + 1) * (isqrt n + 1)"
proof -
  have "n < 2 ^ bitlen n" by (rule bitlen_bound)
  also have "(2::nat) ^ bitlen n \<le> 2 ^ bitlen n * 2 ^ bitlen n" by simp
  finally have "n < (0 + 2 ^ bitlen n) * (0 + 2 ^ bitlen n)" by simp
  then show ?thesis
    unfolding isqrt_def by (intro isqrt_digits_correct) simp_all
qed

lemma isqrt_unique:
  assumes "s * s \<le> n" and "n < (s + 1) * (s + 1)"
  shows "isqrt n = s"
proof (rule ccontr)
  assume ne: "isqrt n \<noteq> s"
  let ?t = "isqrt n"
  from isqrt_correct [of n] have t: "?t * ?t \<le> n" "n < (?t + 1) * (?t + 1)" by simp_all
  show False
  proof (cases "?t < s")
    case True
    then have "?t + 1 \<le> s" by simp
    then have "(?t + 1) * (?t + 1) \<le> s * s" by (intro mult_le_mono)
    with t(2) assms(1) show False by simp
  next
    case False
    with ne have "s + 1 \<le> ?t" by simp
    then have "(s + 1) * (s + 1) \<le> ?t * ?t" by (intro mult_le_mono)
    with t(1) assms(2) show False by simp
  qed
qed

lemma isqrt_2_298: "isqrt (2 ^ 298) = 2 ^ 149"
  by (rule isqrt_unique) (simp_all add: power_add [symmetric])


lemma f32_sqrt_four: "f32_sqrt f32_four = f32_two"
proof -
  have m: "f32_mag f32_four = 2 ^ 151"
    by (simp add: f32_four_def f32_mag_def f32_exp_def f32_frac_def)
  have n: "\<not> f32_is_nan f32_four" "\<not> f32_is_inf f32_four" "\<not> f32_sign f32_four"
    by (simp_all add: f32_four_def f32_is_nan_def f32_is_inf_def f32_sign_def f32_exp_def
        f32_frac_def)
  have b: "bitlen (2 ^ 150) = 151"
    by (simp add: bitlen.simps)
  have r: "f32_round False 0 (2 ^ 150) = f32_two"
    by (simp only: f32_round_def Let_def b) (simp add: f32_two_def)
  have "(2::nat) ^ 151 * 2 ^ 147 = 2 ^ 298" by simp
  then show ?thesis
    using n r isqrt_2_298 by (simp add: f32_sqrt_def m Let_def)
qed

lemma Distance_result:
  assumes "valid_line h l"
  shows "DistanceSq (Some l) h = Inr (vec_dist_sq (start (lines h ! l)) (end' (lines h ! l)))"
    and "Distance (Some l) h =
           Inr (f32_sqrt (vec_dist_sq (start (lines h ! l)) (end' (lines h ! l))))"
  using assms
  by (simp_all add: DistanceSq_def Distance_def Vector3_DistanceTo_def
      Vector3_DistanceToSquared_def valid_line_def)

text \<open>
  C4, as amended. For a non-nil line, \<open>DistanceSq\<close> is the squared Euclidean distance
  of the endpoints and \<open>Distance\<close> is its square root, for degenerate segments as well as
  for the others. A degenerate segment (start \<open>==\<close> end) whose components are finite
  has \<open>DistanceSq\<close> and \<open>Distance\<close> equal to \<open>0\<close>.
\<close>

theorem Distance_sqrt:
  assumes "valid_line h l"
  shows "\<exists>d. DistanceSq (Some l) h = Inr d
     \<and> d = vec_dist_sq (start (lines h ! l)) (end' (lines h ! l))
     \<and> Distance (Some l) h = Inr (f32_sqrt d)
     \<and> (vec_eq (start (lines h ! l)) (end' (lines h ! l)) \<and> vec_finite (start (lines h ! l))
          \<longrightarrow> d = 0 \<and> Distance (Some l) h = Inr 0)"
  using Distance_result [OF assms]
  by (auto simp: vec_dist_sq_eq f32_sqrt_zero)

text \<open>
  On \<open>store_deg\<close>: the line from \<open>(2,0,0)\<close> to \<open>(2,0,0)\<close> has distance \<open>0\<close>. On
  \<open>store0\<close>: the line from \<open>(0,0,0)\<close> to \<open>(2,0,0)\<close> has squared distance \<open>4\<close> and
  distance \<open>2\<close>.
\<close>

theorem Distance_sqrt_witness:
  "valid_line store_deg 0
   \<and> vec_eq (start (lines store_deg ! 0)) (end' (lines store_deg ! 0))
   \<and> vec_finite (start (lines store_deg ! 0))
   \<and> DistanceSq (Some 0) store_deg = Inr 0
   \<and> Distance (Some 0) store_deg = Inr 0
   \<and> valid_line store0 0
   \<and> DistanceSq (Some 0) store0 = Inr f32_four
   \<and> Distance (Some 0) store0 = Inr f32_two"
proof -
  have h: "valid_line store_deg 0"
    "vec_eq (start (lines store_deg ! 0)) (end' (lines store_deg ! 0))"
    "vec_finite (start (lines store_deg ! 0))"
    by (simp_all add: store_deg_def valid_line_def line3_def vec3_def f32_two_def vec_eq_def
        vec_finite_def f32_eq_def f32_finite_def f32_is_nan_def f32_exp_def f32_frac_def)
  have v: "valid_line store0 0"
    by (simp add: store0_def valid_line_def)
  have d: "vec_dist_sq (start (lines store0 ! 0)) (end' (lines store0 ! 0)) = f32_four"
    by (simp add: store0_def line3_def vec3_def vec_dist_sq_def f32_examples)
  from Distance_sqrt [OF v] d have "DistanceSq (Some 0) store0 = Inr f32_four"
    and "Distance (Some 0) store0 = Inr f32_two"
    by (auto simp: f32_sqrt_four)
  with h v Distance_sqrt [OF h(1)] show ?thesis by auto
qed

text \<open>
  C4 as stated fails for a degenerate segment with an infinite component: for the line
  from \<open>(+Inf,0,0)\<close> to \<open>(+Inf,0,0)\<close> the difference \<open>Inf - Inf\<close> is a NaN, and so is
  \<open>Distance\<close>, which is not equal to \<open>0\<close>.
\<close>

theorem Distance_infinite_counterexample:
  "start (lines store_inf ! 0) = end' (lines store_inf ! 0)
   \<and> vec_eq (start (lines store_inf ! 0)) (end' (lines store_inf ! 0))
   \<and> Distance (Some 0) store_inf = Inr f32_nan
   \<and> \<not> f32_eq f32_nan 0"
proof -
  have s: "f32_sub (f32_inf False) (f32_inf False) = f32_nan"
    by (simp add: f32_sub_def f32_add_def f32_neg_def f32_inf_def f32_is_nan_def f32_is_inf_def
        f32_exp_def f32_frac_def f32_sign_def)
  have n: "f32_is_nan f32_nan"
    by (simp add: f32_nan_def f32_is_nan_def f32_exp_def f32_frac_def)
  have d: "vec_dist_sq (vec3 (f32_inf False) 0 0) (vec3 (f32_inf False) 0 0) = f32_nan"
    using n by (simp add: vec_dist_sq_def vec3_def s f32_mul_def f32_add_def)
  have v: "valid_line store_inf 0"
    by (simp add: store_inf_def valid_line_def)
  have e: "vec_eq (vec3 (f32_inf False) 0 0) (vec3 (f32_inf False) 0 0)"
    by (simp add: vec_eq_def vec3_def f32_eq_def f32_inf_def f32_is_nan_def f32_exp_def
        f32_frac_def)
  show ?thesis
    using Distance_result(2) [OF v] n e
    by (simp add: store_inf_def line3_def d f32_sqrt_def f32_eq_def)
qed


end
